theory Spec2Isabelle
  imports Main "HOL-Library.AList"
begin

section \<open>Data model of the multi-tenant dashboard (\<^verbatim>\<open>src/app.js\<close>, lines 374--1041)\<close>

text \<open>
  The model follows the session-isolated revision of \<^verbatim>\<open>app.js\<close>. JavaScript values that
  may be \<^verbatim>\<open>undefined\<close> are options; a thrown exception or a rejected promise is the
  \<open>Inl\<close> branch of a sum. Everything the process or its collaborators decide (whether a
  connection can be established, whether a store operation succeeds, the clock) is an
  explicit input.
\<close>

datatype js_error = Error string | MongoServerError nat string

text \<open>A mongoose connection handle: its object identity, the address it was opened
  with and its \<^verbatim>\<open>readyState\<close> (1 means connected).\<close>

record connection =
  conn_id :: nat
  conn_uri :: string
  readyState :: nat

record status_entry =
  status :: string
  reason :: string

record server =
  server_name :: string
  server_url :: string
  server_status :: string

record log =
  log_timestamp :: int
  log_statuses :: "(string \<times> status_entry) list"

record deployment =
  dep_version :: string
  dep_status :: string
  dep_timestamp :: int
  dep_provider :: string
  dep_project :: "string option"
  dep_environment :: "string option"

text \<open>The three collections behind one backing-store address, and the same shape for
  the in-memory data of a guest session.\<close>

record dataset =
  servers :: "server list"
  logs :: "log list"
  deployments :: "deployment list"

datatype port = PortNum nat | PortStr string

record config =
  MONGO_URI :: "string option"
  API_KEY :: string
  RENDER_API_KEY :: string
  PORT :: port

text \<open>\<^verbatim>\<open>req.session\<close>: the two fields the application writes, and the expiry instant the
  session middleware keeps in the session cookie (last activity plus \<^verbatim>\<open>maxAge\<close>).\<close>

record session =
  config :: "config option"
  isGuest :: "bool option"
  cookie_expires :: int

text \<open>The process-wide mutable state: the two module-level maps, the pipeline flag, the
  number of \<^verbatim>\<open>mongoose.createConnection\<close> calls made so far (it also names the next
  handle), and the contents of every backing store by address.\<close>

record world =
  connectionPool :: "(string \<times> connection) list"
  guestStorage :: "(string \<times> dataset) list"
  PIPELINE_STATUS :: string
  created :: nat
  stores :: "string \<Rightarrow> dataset"

datatype response = Redirect string | Json nat string

datatype middleware = Next | Respond response

text \<open>What the handlers read of a request. A body field is \<^verbatim>\<open>undefined\<close> or a string;
  \<open>req_file\<close> is the buffer of the uploaded file, if one was sent.\<close>

record request =
  sessionID :: string
  session :: session
  x_api_key :: "string option"
  body_version :: "string option"
  body_name :: "string option"
  body_url :: "string option"
  params_name :: string
  req_file :: "string option"

text \<open>What the environment decides during one request: the clock, whether a new
  connection's \<^verbatim>\<open>asPromise()\<close> resolves, and whether a store operation succeeds.\<close>

record env =
  now :: int
  connect_ok :: bool
  store_ok :: bool

section \<open>Session configuration and guest defaults\<close>

definition sessionConfig_cookie_maxAge :: int where
  "sessionConfig_cookie_maxAge = 30 * 60 * 1000"

definition GUEST_CONFIG :: config where
  "GUEST_CONFIG = \<lparr>MONGO_URI = None, API_KEY = ''guest-api-key-12345'',
     RENDER_API_KEY = '''', PORT = PortNum 3000\<rparr>"

text \<open>JavaScript truthiness of a value that is \<^verbatim>\<open>undefined\<close> or a string, and its
  negation \<^verbatim>\<open>!v\<close>.\<close>

definition truthy :: "string option \<Rightarrow> bool" where
  "truthy v = (case v of None \<Rightarrow> False | Some s \<Rightarrow> s \<noteq> [])"

definition falsy :: "string option \<Rightarrow> bool" where
  "falsy v = (case v of None \<Rightarrow> True | Some s \<Rightarrow> s = [])"

definition seed :: "int \<Rightarrow> dataset" where
  "seed t = \<lparr>
     servers =
       [\<lparr>server_name = ''Demo Server 1'', server_url = ''https://httpstat.us/200'',
          server_status = ''Up''\<rparr>,
        \<lparr>server_name = ''Demo Server 2'', server_url = ''https://httpstat.us/500'',
          server_status = ''Down''\<rparr>],
     logs =
       [\<lparr>log_timestamp = t - 60000,
          log_statuses =
            [(''Demo Server 1'', \<lparr>status = ''Up'', reason = ''OK 200''\<rparr>),
             (''Demo Server 2'', \<lparr>status = ''Down'', reason = ''HTTP 500''\<rparr>)]\<rparr>],
     deployments =
       [\<lparr>dep_version = ''v1.0.0'', dep_status = ''success'', dep_timestamp = t - 120000,
          dep_provider = ''manual'', dep_project = Some ''Demo Project'',
          dep_environment = Some ''production''\<rparr>]\<rparr>"

definition getGuestData :: "string \<Rightarrow> int \<Rightarrow> world \<Rightarrow> dataset \<times> world" where
  "getGuestData sessionId t w =
     (case map_of (guestStorage w) sessionId of
        Some d \<Rightarrow> (d, w)
      | None \<Rightarrow>
          (seed t, w\<lparr>guestStorage := AList.update sessionId (seed t) (guestStorage w)\<rparr>))"

section \<open>The connection pool\<close>

definition connectionKey :: "string \<Rightarrow> string \<Rightarrow> string" where
  "connectionKey sessionId mongoUri = sessionId @ '':'' @ mongoUri"

text \<open>\<^verbatim>\<open>mongoose.createConnection\<close> followed by \<^verbatim>\<open>await conn.asPromise()\<close>: the handle is
  always created (and counted); it is cached only when the promise resolves.\<close>

definition createConnection :: "string \<Rightarrow> string \<Rightarrow> bool \<Rightarrow> world \<Rightarrow> (js_error + connection) \<times> world" where
  "createConnection connKey mongoUri ok w =
     (let conn = \<lparr>conn_id = created w, conn_uri = mongoUri, readyState = (if ok then 1 else 0)\<rparr>;
          w1 = w\<lparr>created := Suc (created w)\<rparr>
      in if ok
         then (Inr conn, w1\<lparr>connectionPool := AList.update connKey conn (connectionPool w1)\<rparr>)
         else (Inl (Error ''connection failed''), w1))"

definition getConnection :: "string \<Rightarrow> string \<Rightarrow> bool \<Rightarrow> world \<Rightarrow> (js_error + connection) \<times> world" where
  "getConnection sessionId mongoUri ok w =
     (if sessionId = [] \<or> mongoUri = []
      then (Inl (Error ''Session ID and MongoDB URI are required''), w)
      else
        let connKey = connectionKey sessionId mongoUri in
        (case map_of (connectionPool w) connKey of
           Some conn \<Rightarrow>
             if readyState conn = 1 then (Inr conn, w)
             else createConnection connKey mongoUri ok
                    (w\<lparr>connectionPool := AList.delete connKey (connectionPool w)\<rparr>)
         | None \<Rightarrow> createConnection connKey mongoUri ok w))"

text \<open>Sequential acquires for one pair; each call has its own connection outcome.\<close>

fun getConnection_seq :: "string \<Rightarrow> string \<Rightarrow> bool list \<Rightarrow> world \<Rightarrow> (js_error + connection) list \<times> world" where
  "getConnection_seq sessionId mongoUri [] w = ([], w)"
| "getConnection_seq sessionId mongoUri (ok # oks) w =
     (case getConnection sessionId mongoUri ok w of
        (r, w1) \<Rightarrow>
          (case getConnection_seq sessionId mongoUri oks w1 of
             (rs, w2) \<Rightarrow> (r # rs, w2)))"

definition initial_world :: world where
  "initial_world = \<lparr>connectionPool = [], guestStorage = [], PIPELINE_STATUS = ''success'',
     created = 0, stores = (\<lambda>_. \<lparr>servers = [], logs = [], deployments = []\<rparr>)\<rparr>"

section \<open>Session gate and access-key check\<close>

definition requireAuth :: "session \<Rightarrow> middleware" where
  "requireAuth s =
     (if isGuest s = Some False \<and> config s \<noteq> None then Next
      else if isGuest s = Some True then Next
      else Respond (Redirect ''/?error=upload_required''))"

definition authenticate :: "request \<Rightarrow> middleware" where
  "authenticate req =
     (let sessionApiKey =
            (case config (session req) of Some c \<Rightarrow> API_KEY c | None \<Rightarrow> API_KEY GUEST_CONFIG)
      in if x_api_key req = Some sessionApiKey then Next
         else Respond (Json 403 ''Forbidden: Invalid API Key''))"

text \<open>A middleware in front of a handler: the handler runs only after \<^verbatim>\<open>next()\<close>.\<close>

definition guarded :: "middleware \<Rightarrow> (world \<Rightarrow> response \<times> world) \<Rightarrow> world \<Rightarrow> response \<times> world" where
  "guarded m handler w = (case m of Next \<Rightarrow> handler w | Respond r \<Rightarrow> (r, w))"

section \<open>Activation and logout\<close>

text \<open>\<^verbatim>\<open>parseEnvContent\<close> hands the buffer to \<^verbatim>\<open>dotenv.parse\<close>, a library outside the
  repository; the parser is a parameter, and may throw.\<close>

definition parseEnvContent :: "(string \<Rightarrow> js_error + (string \<rightharpoonup> string)) \<Rightarrow> string \<Rightarrow> js_error + (string \<rightharpoonup> string)" where
  "parseEnvContent dotenv_parse buffer = dotenv_parse buffer"

definition or_empty :: "string option \<Rightarrow> string" where
  "or_empty v = (case v of None \<Rightarrow> [] | Some s \<Rightarrow> s)"

definition port_or_default :: "string option \<Rightarrow> port" where
  "port_or_default v = (if truthy v then PortStr (or_empty v) else PortNum 3000)"

definition upload_env :: "(string \<Rightarrow> js_error + (string \<rightharpoonup> string)) \<Rightarrow> request \<Rightarrow> env \<Rightarrow> world \<Rightarrow> response \<times> session \<times> world" where
  "upload_env dotenv_parse req e w =
     (case req_file req of
        None \<Rightarrow> (Redirect ''/?error=no_file'', session req, w)
      | Some buffer \<Rightarrow>
          (case parseEnvContent dotenv_parse buffer of
             Inl error \<Rightarrow> (Redirect ''/?error=upload_failed'', session req, w)
           | Inr cfg \<Rightarrow>
               if falsy (cfg ''MONGO_URI'') \<or> falsy (cfg ''API_KEY'')
               then (Redirect ''/?error=invalid_env'', session req, w)
               else
                 let s1 = (session req)\<lparr>
                        config := Some \<lparr>MONGO_URI = cfg ''MONGO_URI'',
                                        API_KEY = or_empty (cfg ''API_KEY''),
                                        RENDER_API_KEY = or_empty (cfg ''RENDER_API_KEY''),
                                        PORT = port_or_default (cfg ''PORT'')\<rparr>,
                        isGuest := Some False\<rparr>
                 in (case getConnection (sessionID req) (or_empty (cfg ''MONGO_URI'')) (connect_ok e) w of
                       (Inl err, w1) \<Rightarrow> (Redirect ''/?error=db_connection_failed'', s1, w1)
                     | (Inr testConn, w1) \<Rightarrow> (Redirect ''/dashboard'', s1, w1))))"

definition guest_mode :: "request \<Rightarrow> env \<Rightarrow> world \<Rightarrow> response \<times> session \<times> world" where
  "guest_mode req e w =
     (let s1 = (session req)\<lparr>config := Some GUEST_CONFIG, isGuest := Some True\<rparr>
      in case getGuestData (sessionID req) (now e) w of
           (d, w1) \<Rightarrow> (Redirect ''/dashboard'', s1, w1))"

definition startsWith :: "string \<Rightarrow> string \<Rightarrow> bool" where
  "startsWith s p = (take (length p) s = p)"

text \<open>The logout loop over \<^verbatim>\<open>connectionPool.entries()\<close>: an entry whose key starts with the
  session id is closed and, when \<^verbatim>\<open>close()\<close> did not throw, deleted.\<close>

fun close_connections :: "string \<Rightarrow> (nat \<Rightarrow> bool) \<Rightarrow> (string \<times> connection) list \<Rightarrow> (string \<times> connection) list" where
  "close_connections sessionId close_ok [] = []"
| "close_connections sessionId close_ok ((k, conn) # rest) =
     (if startsWith k sessionId
      then (if close_ok (conn_id conn)
            then close_connections sessionId close_ok rest
            else (k, conn) # close_connections sessionId close_ok rest)
      else (k, conn) # close_connections sessionId close_ok rest)"

text \<open>\<^verbatim>\<open>GET /logout\<close>; the session record is destroyed (\<open>None\<close>).\<close>

definition logout :: "request \<Rightarrow> (nat \<Rightarrow> bool) \<Rightarrow> world \<Rightarrow> response \<times> session option \<times> world" where
  "logout req close_ok w =
     (let sessionId = sessionID req;
          w1 = (if map_of (guestStorage w) sessionId \<noteq> None
                then w\<lparr>guestStorage := AList.delete sessionId (guestStorage w)\<rparr> else w);
          w2 = w1\<lparr>connectionPool := close_connections sessionId close_ok (connectionPool w1)\<rparr>
      in (Redirect ''/'', None, w2))"

section \<open>Tenant-write handlers\<close>

definition update_store :: "string \<Rightarrow> (dataset \<Rightarrow> dataset) \<Rightarrow> world \<Rightarrow> world" where
  "update_store uri f w = w\<lparr>stores := (stores w)(uri := f (stores w uri))\<rparr>"

text \<open>\<^verbatim>\<open>POST /deploy\<close>. The timer callback that later marks the deployment successful runs
  after the response and is not part of this step.\<close>

definition deploy :: "request \<Rightarrow> env \<Rightarrow> world \<Rightarrow> response \<times> world" where
  "deploy req e w =
     (if falsy (body_version req) then (Json 400 ''Version is required'', w)
      else if isGuest (session req) = Some True
      then (Json 403 ''Cannot deploy in guest mode'', w)
      else
        (case config (session req) of
           None \<Rightarrow> (Json 500 ''Deployment failed'', w)
         | Some cfg \<Rightarrow>
             (case getConnection (sessionID req) (or_empty (MONGO_URI cfg)) (connect_ok e) w of
                (Inl error, w1) \<Rightarrow> (Json 500 ''Deployment failed'', w1)
              | (Inr connection, w1) \<Rightarrow>
                  let w2 = w1\<lparr>PIPELINE_STATUS := ''in_progress''\<rparr>;
                      d = \<lparr>dep_version = or_empty (body_version req), dep_status = ''in_progress'',
                           dep_timestamp = now e, dep_provider = ''manual'',
                           dep_project = None, dep_environment = None\<rparr>
                  in if store_ok e
                     then (Json 200 ''Deployment triggered'',
                           update_store (conn_uri connection)
                             (\<lambda>db. db\<lparr>deployments := deployments db @ [d]\<rparr>) w2)
                     else (Json 500 ''Deployment failed'', w2))))"

text \<open>\<^verbatim>\<open>POST /servers\<close>; the unique index on \<^verbatim>\<open>name\<close> rejects a duplicate with code 11000.\<close>

definition add_server :: "request \<Rightarrow> env \<Rightarrow> world \<Rightarrow> response \<times> world" where
  "add_server req e w =
     (if isGuest (session req) = Some True
      then (Json 403 ''Cannot add servers in guest mode'', w)
      else if falsy (body_name req) \<or> falsy (body_url req)
      then (Json 400 ''Name and URL are required'', w)
      else
        (case config (session req) of
           None \<Rightarrow> (Json 500 ''Internal Server Error'', w)
         | Some cfg \<Rightarrow>
             (case getConnection (sessionID req) (or_empty (MONGO_URI cfg)) (connect_ok e) w of
                (Inl error, w1) \<Rightarrow> (Json 500 ''Internal Server Error'', w1)
              | (Inr connection, w1) \<Rightarrow>
                  let sv = \<lparr>server_name = or_empty (body_name req),
                            server_url = or_empty (body_url req), server_status = ''Unknown''\<rparr>
                  in if \<not> store_ok e then (Json 500 ''Internal Server Error'', w1)
                     else if server_name sv \<in> set (map server_name (servers (stores w1 (conn_uri connection))))
                     then (Json 409 ''Server with this name already exists'', w1)
                     else (Json 201 ''Server added'',
                           update_store (conn_uri connection)
                             (\<lambda>db. db\<lparr>servers := servers db @ [sv]\<rparr>) w1))))"

text \<open>\<^verbatim>\<open>DELETE /servers/:name\<close>.\<close>

definition delete_server :: "request \<Rightarrow> env \<Rightarrow> world \<Rightarrow> response \<times> world" where
  "delete_server req e w =
     (if isGuest (session req) = Some True
      then (Json 403 ''Cannot delete servers in guest mode'', w)
      else
        (case config (session req) of
           None \<Rightarrow> (Json 500 ''Internal Server Error'', w)
         | Some cfg \<Rightarrow>
             (case getConnection (sessionID req) (or_empty (MONGO_URI cfg)) (connect_ok e) w of
                (Inl error, w1) \<Rightarrow> (Json 500 ''Internal Server Error'', w1)
              | (Inr connection, w1) \<Rightarrow>
                  if \<not> store_ok e then (Json 500 ''Internal Server Error'', w1)
                  else
                    (case find (\<lambda>sv. server_name sv = params_name req)
                            (servers (stores w1 (conn_uri connection))) of
                       Some sv \<Rightarrow>
                         (Json 200 ''Server removed'',
                          update_store (conn_uri connection)
                            (\<lambda>db. db\<lparr>servers := remove1 sv (servers db)\<rparr>) w1)
                     | None \<Rightarrow> (Json 404 ''Server not found'', w1)))))"

text \<open>\<^verbatim>\<open>POST /logs_delete\<close>.\<close>

definition logs_delete :: "request \<Rightarrow> env \<Rightarrow> world \<Rightarrow> response \<times> world" where
  "logs_delete req e w =
     (if isGuest (session req) = Some True
      then (Json 403 ''Cannot delete logs in guest mode'', w)
      else
        (case config (session req) of
           None \<Rightarrow> (Json 500 ''Internal Server Error'', w)
         | Some cfg \<Rightarrow>
             (case getConnection (sessionID req) (or_empty (MONGO_URI cfg)) (connect_ok e) w of
                (Inl error, w1) \<Rightarrow> (Json 500 ''Internal Server Error'', w1)
              | (Inr connection, w1) \<Rightarrow>
                  if store_ok e
                  then (Redirect ''/dashboard'',
                        update_store (conn_uri connection) (\<lambda>db. db\<lparr>logs := []\<rparr>) w1)
                  else (Json 500 ''Internal Server Error'', w1))))"

text \<open>The routes as registered: the middleware chain in front of each handler.\<close>

definition route_deploy :: "request \<Rightarrow> env \<Rightarrow> world \<Rightarrow> response \<times> world" where
  "route_deploy req e =
     guarded (requireAuth (session req)) (guarded (authenticate req) (deploy req e))"

definition route_add_server :: "request \<Rightarrow> env \<Rightarrow> world \<Rightarrow> response \<times> world" where
  "route_add_server req e =
     guarded (requireAuth (session req)) (guarded (authenticate req) (add_server req e))"

definition route_delete_server :: "request \<Rightarrow> env \<Rightarrow> world \<Rightarrow> response \<times> world" where
  "route_delete_server req e = guarded (requireAuth (session req)) (delete_server req e)"

definition route_logs_delete :: "request \<Rightarrow> env \<Rightarrow> world \<Rightarrow> response \<times> world" where
  "route_logs_delete req e =
     guarded (requireAuth (session req)) (guarded (authenticate req) (logs_delete req e))"

text \<open>\<^verbatim>\<open>POST /webhooks/render\<close>: the payload is logged and acknowledged; the \<^verbatim>\<open>catch\<close>
  branch answers 500 when the logging inside \<^verbatim>\<open>try\<close> throws.\<close>

definition webhooks_render :: "string \<Rightarrow> bool \<Rightarrow> world \<Rightarrow> response \<times> world" where
  "webhooks_render payload logging_ok w =
     (if logging_ok then (Json 200 ''Webhook received'', w)
      else (Json 500 ''Webhook processing failed'', w))"

section \<open>Health check\<close>

text \<open>What \<^verbatim>\<open>axios.get\<close> rejects with: an optional response (status code and optional
  status text), an optional low-level code and an optional message.\<close>

record axios_error =
  err_response :: "(nat \<times> string option) option"
  err_code :: "string option"
  err_message :: "string option"

datatype probe = Responded | Rejected axios_error

text \<open>The collaborators of one health check: the clock, whether \<^verbatim>\<open>Server.find()\<close>
  resolves, the outcome of the probe of each url, whether saving the document of each
  named server succeeds, and whether saving the log entry succeeds.\<close>

record health_env =
  check_time :: int
  find_ok :: bool
  axios_get :: "string \<Rightarrow> probe"
  server_save_ok :: "string \<Rightarrow> bool"
  log_save_ok :: bool

text \<open>The decimal rendering of a status code inside the template literal.\<close>

definition digit_char :: "nat \<Rightarrow> char" where
  "digit_char d =
     (if d = 0 then CHR ''0'' else if d = 1 then CHR ''1'' else if d = 2 then CHR ''2''
      else if d = 3 then CHR ''3'' else if d = 4 then CHR ''4'' else if d = 5 then CHR ''5''
      else if d = 6 then CHR ''6'' else if d = 7 then CHR ''7'' else if d = 8 then CHR ''8''
      else CHR ''9'')"

fun digits_acc :: "nat \<Rightarrow> string \<Rightarrow> string" where
  "digits_acc n acc =
     (if n div 10 = 0 then digit_char (n mod 10) # acc
      else digits_acc (n div 10) (digit_char (n mod 10) # acc))"

definition decimal :: "nat \<Rightarrow> string" where
  "decimal n = digits_acc n []"

definition failure_reason :: "axios_error \<Rightarrow> string" where
  "failure_reason error =
     (case err_response error of
        Some (code, statusText) \<Rightarrow>
          ''HTTP '' @ decimal code @ '' '' @ (if truthy statusText then or_empty statusText else [])
      | None \<Rightarrow>
          if truthy (err_code error) then or_empty (err_code error)
          else if truthy (err_message error) then or_empty (err_message error)
          else ''Connection failed'')"

definition probe_entry :: "probe \<Rightarrow> status_entry" where
  "probe_entry p =
     (case p of
        Responded \<Rightarrow> \<lparr>status = ''Up'', reason = ''OK 200''\<rparr>
      | Rejected error \<Rightarrow> \<lparr>status = ''Down'', reason = failure_reason error\<rparr>)"

text \<open>The loop over the servers found. A rejected probe is caught inside the iteration;
  a failing \<^verbatim>\<open>server.save()\<close> is not, and leaves the loop with the exception. The result is
  the exception if any, the statuses collected so far and the documents as saved.\<close>

fun check_servers :: "health_env \<Rightarrow> server list \<Rightarrow> (string \<times> status_entry) list \<Rightarrow> js_error option \<times> (string \<times> status_entry) list \<times> server list" where
  "check_servers h [] statuses = (None, statuses, [])"
| "check_servers h (sv # rest) statuses =
     (let statuses1 = AList.update (server_name sv) (probe_entry (axios_get h (server_url sv))) statuses;
          sv1 = sv\<lparr>server_status := status (probe_entry (axios_get h (server_url sv)))\<rparr>
      in if server_save_ok h (server_name sv)
         then (case check_servers h rest statuses1 of
                 (r, statuses2, rest1) \<Rightarrow> (r, statuses2, sv1 # rest1))
         else (Some (Error ''save failed''), statuses1, sv # rest))"

definition guest_statuses :: "server list \<Rightarrow> (string \<times> status_entry) list" where
  "guest_statuses svs =
     fold (\<lambda>sv statuses.
             AList.update (server_name sv)
               \<lparr>status = server_status sv,
                reason = (if server_status sv = ''Up'' then ''OK 200'' else ''Connection failed'')\<rparr>
               statuses)
          svs []"

text \<open>The body of the \<^verbatim>\<open>try\<close> block: the exception that left it (if any), the statuses
  object at that moment, and the world.\<close>

definition checkServerHealth_try :: "health_env \<Rightarrow> string \<Rightarrow> bool \<Rightarrow> connection option \<Rightarrow> world \<Rightarrow> js_error option \<times> (string \<times> status_entry) list \<times> world" where
  "checkServerHealth_try h sessionId guest connection w =
     (if guest
      then (case getGuestData sessionId (check_time h) w of
              (guestData, w1) \<Rightarrow> (None, guest_statuses (servers guestData), w1))
      else
        (case connection of
           None \<Rightarrow> (Some (Error ''Database connection required for authenticated mode''), [], w)
         | Some conn \<Rightarrow>
             if \<not> find_ok h then (Some (Error ''find failed''), [], w)
             else
               (case check_servers h (servers (stores w (conn_uri conn))) [] of
                  (Some error, statuses, saved) \<Rightarrow>
                    (Some error, statuses,
                     update_store (conn_uri conn) (\<lambda>db. db\<lparr>servers := saved\<rparr>) w)
                | (None, statuses, saved) \<Rightarrow>
                    let w1 = update_store (conn_uri conn) (\<lambda>db. db\<lparr>servers := saved\<rparr>) w
                    in if log_save_ok h
                       then (None, statuses,
                             update_store (conn_uri conn)
                               (\<lambda>db. db\<lparr>logs := logs db @
                                   [\<lparr>log_timestamp = check_time h, log_statuses = statuses\<rparr>]\<rparr>) w1)
                       else (Some (Error ''log save failed''), statuses, w1))))"

text \<open>\<^verbatim>\<open>checkServerHealth\<close>: the \<^verbatim>\<open>catch\<close> clause logs the exception, and the function
  returns the statuses object either way. The result is a sum so that an exception
  reaching the caller would be visible as \<open>Inl\<close>.\<close>

definition checkServerHealth :: "health_env \<Rightarrow> string \<Rightarrow> bool \<Rightarrow> connection option \<Rightarrow> world \<Rightarrow> (js_error + (string \<times> status_entry) list) \<times> world" where
  "checkServerHealth h sessionId guest connection w =
     (case checkServerHealth_try h sessionId guest connection w of
        (Some error, statuses, w1) \<Rightarrow> (Inr statuses, w1)
      | (None, statuses, w1) \<Rightarrow> (Inr statuses, w1))"

section \<open>Well-formed pools\<close>

text \<open>Every handle in the pool was produced by \<^verbatim>\<open>createConnection\<close>: keys are unique (it is a
  \<^verbatim>\<open>Map\<close>), no handle is cached twice, and every cached handle was counted.\<close>

definition pool_ok :: "world \<Rightarrow> bool" where
  "pool_ok w =
     (distinct (map fst (connectionPool w)) \<and>
      distinct (map (\<lambda>p. conn_id (snd p)) (connectionPool w)) \<and>
      list_all (\<lambda>p. conn_id (snd p) < created w) (connectionPool w))"

text \<open>A session record as the session middleware creates it, and a request that carries
  nothing but its session.\<close>

definition fresh_session :: "int \<Rightarrow> session" where
  "fresh_session t = \<lparr>config = None, isGuest = None, cookie_expires = t + sessionConfig_cookie_maxAge\<rparr>"

definition bare_request :: "string \<Rightarrow> session \<Rightarrow> request" where
  "bare_request sid s = \<lparr>sessionID = sid, session = s, x_api_key = None, body_version = None,
     body_name = None, body_url = None, params_name = [], req_file = None\<rparr>"

section \<open>The session middleware\<close>

text \<open>Modelled from the spec: the lookup done by the session middleware that
  \<^verbatim>\<open>app.use(session(sessionConfig))\<close> puts in front of every route (its code is a library
  outside the repository). By the spec a session record is destroyed after the fixed
  inactivity window, the cookie's \<^verbatim>\<open>maxAge\<close> of 30 minutes, has elapsed with no request. A
  request whose stored record is still live gets that record, its expiry instant moved
  one window past this request; a request whose record has expired, or that has none,
  gets a new id and a new empty record.\<close>

definition session_middleware :: "string \<Rightarrow> int \<Rightarrow> session option \<Rightarrow> request \<Rightarrow> request" where
  "session_middleware new_id t stored req =
     (case stored of
        Some s \<Rightarrow>
          if t < cookie_expires s
          then req\<lparr>session := s\<lparr>cookie_expires := t + sessionConfig_cookie_maxAge\<rparr>\<rparr>
          else req\<lparr>sessionID := new_id, session := fresh_session t\<rparr>
      | None \<Rightarrow> req\<lparr>sessionID := new_id, session := fresh_session t\<rparr>)"

section \<open>What a health check records\<close>

text \<open>What the loop of a health check amounts to: the servers it reaches (it stops after
  the first document that cannot be saved) and the statuses it records for them.\<close>

fun probed :: "health_env \<Rightarrow> server list \<Rightarrow> server list" where
  "probed h [] = []"
| "probed h (sv # rest) = sv # (if server_save_ok h (server_name sv) then probed h rest else [])"

definition classify :: "health_env \<Rightarrow> server list \<Rightarrow> (string \<times> status_entry) list \<Rightarrow> (string \<times> status_entry) list" where
  "classify h svs statuses =
     fold (\<lambda>sv. AList.update (server_name sv) (probe_entry (axios_get h (server_url sv)))) svs statuses"

section \<open>Fixtures\<close>

text \<open>Concrete requests, parsers, environments and worlds for the instances below.\<close>

definition guest_request :: "string \<Rightarrow> int \<Rightarrow> request" where
  "guest_request sid t =
     (bare_request sid ((fresh_session t)\<lparr>config := Some GUEST_CONFIG, isGuest := Some True\<rparr>))
       \<lparr>x_api_key := Some ''guest-api-key-12345''\<rparr>"

definition calm :: env where
  "calm = \<lparr>now = 0, connect_ok = True, store_ok = True\<rparr>"

definition sample_parse :: "string \<Rightarrow> js_error + (string \<rightharpoonup> string)" where
  "sample_parse buffer = Inr (map_of [(''MONGO_URI'', ''mongodb://db.example/ops''), (''API_KEY'', ''k1'')])"

definition parse_without_key :: "string \<Rightarrow> js_error + (string \<rightharpoonup> string)" where
  "parse_without_key buffer = Inr (map_of [(''MONGO_URI'', ''mongodb://db.example/ops'')])"

definition upload_request :: "string \<Rightarrow> int \<Rightarrow> request" where
  "upload_request sid t = (bare_request sid (fresh_session t))\<lparr>req_file := Some ''env''\<rparr>"

definition two_servers :: "server list" where
  "two_servers =
     [\<lparr>server_name = ''api'', server_url = ''http://api.example'', server_status = ''Unknown''\<rparr>,
      \<lparr>server_name = ''web'', server_url = ''http://web.example'', server_status = ''Unknown''\<rparr>]"

definition api_down :: health_env where
  "api_down = \<lparr>check_time = 5, find_ok = True,
     axios_get = (\<lambda>url. if url = ''http://api.example''
                        then Rejected \<lparr>err_response = None, err_code = Some ''ECONNREFUSED'',
                                       err_message = Some ''connect ECONNREFUSED''\<rparr>
                        else Responded),
     server_save_ok = (\<lambda>n. True), log_save_ok = True\<rparr>"

definition two_server_world :: world where
  "two_server_world = update_store ''mongodb://db.example/ops'' (\<lambda>db. db\<lparr>servers := two_servers\<rparr>) initial_world"

definition tenant_session :: session where
  "tenant_session = (fresh_session 0)\<lparr>
     config := Some \<lparr>MONGO_URI = Some ''mongodb://db.example/ops'', API_KEY = ''k1'',
                     RENDER_API_KEY = [], PORT = PortNum 3000\<rparr>,
     isGuest := Some False\<rparr>"

section \<open>Properties of the connection pool\<close>

lemma getConnection_live:
  assumes "sessionId \<noteq> []" "mongoUri \<noteq> []"
    and "map_of (connectionPool w) (connectionKey sessionId mongoUri) = Some conn"
    and "readyState conn = 1"
  shows "getConnection sessionId mongoUri ok w = (Inr conn, w)"
  using assms by (simp add: getConnection_def)

lemma getConnection_seq_live:
  assumes "sessionId \<noteq> []" "mongoUri \<noteq> []"
    and "map_of (connectionPool w) (connectionKey sessionId mongoUri) = Some conn"
    and "readyState conn = 1"
  shows "getConnection_seq sessionId mongoUri oks w = (replicate (length oks) (Inr conn), w)"
  using assms by (induction oks) (simp_all add: getConnection_live)

lemma createConnection_Inr:
  assumes "createConnection k u ok w = (Inr c, w1)"
  shows "map_of (connectionPool w1) k = Some c \<and> readyState c = 1 \<and> conn_id c = created w
     \<and> created w1 = Suc (created w) \<and> connectionPool w1 = AList.update k c (connectionPool w)"
  using assms by (auto simp: createConnection_def Let_def AList.update_conv' split: if_splits)

lemma getConnection_Inr_cached:
  assumes "getConnection s u ok w = (Inr c, w1)"
  shows "map_of (connectionPool w1) (connectionKey s u) = Some c \<and> readyState c = 1 \<and> s \<noteq> [] \<and> u \<noteq> []"
  using assms
  by (auto simp: getConnection_def Let_def  split: if_splits option.splits dest!: createConnection_Inr)

lemma getConnection_other_keys:
  assumes "k \<noteq> connectionKey s u"
  shows "map_of (connectionPool (snd (getConnection s u ok w))) k = map_of (connectionPool w) k"
  using assms
  by (auto simp: getConnection_def createConnection_def Let_def AList.update_conv' AList.delete_conv' split: if_splits option.splits)

lemma list_all_update:
  "list_all P al \<Longrightarrow> P (k, v) \<Longrightarrow> list_all P (AList.update k v al)"
  by (induction al) auto

lemma list_all_delete:
  "list_all P al \<Longrightarrow> list_all P (AList.delete k al)"
  by (induction al) (auto simp: )

lemma set_update_subset: "set (AList.update k v al) \<subseteq> insert (k, v) (set al)"
  by (induction al) auto

lemma set_delete_subset: "set (AList.delete k al) \<subseteq> set al"
  by (induction al) auto

lemma distinct_map_update_fresh:
  assumes "distinct (map f al)" "\<forall>p\<in>set al. f p \<noteq> f (k, v)"
  shows "distinct (map f (AList.update k v al))"
  using assms
proof (induction al)
  case Nil
  then show ?case by simp
next
  case (Cons p al)
  show ?case
  proof (cases "fst p = k")
    case True
    then show ?thesis using Cons.prems by (auto simp: image_iff)
  next
    case False
    have "f p \<notin> f ` set (AList.update k v al)"
    proof
      assume "f p \<in> f ` set (AList.update k v al)"
      then obtain q where q: "q \<in> set (AList.update k v al)" "f p = f q" by auto
      from q(1) set_update_subset[of k v al] have "q = (k, v) \<or> q \<in> set al" by auto
      then show False using q(2) Cons.prems by (auto simp: image_iff)
    qed
    then show ?thesis using False Cons by simp
  qed
qed

lemma conn_ids_update_fresh:
  assumes "distinct (map (\<lambda>p. conn_id (snd p)) al)" "list_all (\<lambda>p. conn_id (snd p) < n) al"
    "conn_id c = n"
  shows "distinct (map (\<lambda>p. conn_id (snd p)) (AList.update k c al))"
  using assms by (intro distinct_map_update_fresh) (auto simp: list_all_iff)

lemma conn_ids_delete:
  assumes "distinct (map (\<lambda>p. conn_id (snd p)) al)"
  shows "distinct (map (\<lambda>p. conn_id (snd p)) (AList.delete k al))"
  using assms by (simp add: AList.delete_eq distinct_map_filter)

lemma pool_ok_createConnection:
  assumes "pool_ok w"
  shows "pool_ok (snd (createConnection k u ok w))"
proof (cases ok)
  case False
  then show ?thesis using assms
    by (auto simp: pool_ok_def createConnection_def Let_def list_all_iff)
next
  case True
  let ?c = "\<lparr>conn_id = created w, conn_uri = u, readyState = 1\<rparr>"
  have pool: "connectionPool (snd (createConnection k u ok w)) = AList.update k ?c (connectionPool w)"
    and cr: "created (snd (createConnection k u ok w)) = Suc (created w)"
    using True by (simp_all add: createConnection_def Let_def)
  have 1: "distinct (map fst (AList.update k ?c (connectionPool w)))"
    using assms by (simp add: pool_ok_def AList.distinct_update)
  have 2: "distinct (map (\<lambda>p. conn_id (snd p)) (AList.update k ?c (connectionPool w)))"
    using assms by (intro conn_ids_update_fresh[where n = "created w"]) (simp_all add: pool_ok_def)
  have "list_all (\<lambda>p. conn_id (snd p) < Suc (created w)) (connectionPool w)"
    using assms by (auto simp: pool_ok_def list_all_iff less_Suc_eq)
  then have 3: "list_all (\<lambda>p. conn_id (snd p) < Suc (created w)) (AList.update k ?c (connectionPool w))"
    by (rule list_all_update) simp
  show ?thesis unfolding pool_ok_def pool cr using 1 2 3 by simp
qed

lemma pool_ok_delete:
  assumes "pool_ok w"
  shows "pool_ok (w\<lparr>connectionPool := AList.delete k (connectionPool w)\<rparr>)"
  using assms by (simp add: pool_ok_def AList.distinct_delete conn_ids_delete list_all_delete)

lemma pool_ok_getConnection:
  assumes "pool_ok w"
  shows "pool_ok (snd (getConnection s u ok w))"
  using assms
  by (auto simp: getConnection_def Let_def pool_ok_createConnection pool_ok_delete split: option.splits)

lemma pool_ok_distinct_handles:
  assumes "pool_ok w" "map_of (connectionPool w) k = Some c" "map_of (connectionPool w) k' = Some c'" "k \<noteq> k'"
  shows "conn_id c \<noteq> conn_id c'"
proof -
  have "(k, c) \<in> set (connectionPool w)" "(k', c') \<in> set (connectionPool w)"
    using assms by (auto dest: map_of_SomeD)
  moreover have "inj_on (\<lambda>p. conn_id (snd p)) (set (connectionPool w))"
    using assms(1) by (simp add: pool_ok_def distinct_map)
  ultimately show ?thesis
    using assms(4) inj_onD[of "\<lambda>p. conn_id (snd p)" "set (connectionPool w)" "(k, c)" "(k', c')"]
    by auto
qed

lemma close_connections_other:
  assumes "\<not> startsWith k sid"
  shows "map_of (close_connections sid close_ok pool) k = map_of pool k"
  using assms by (induction sid close_ok pool rule: close_connections.induct) auto

lemma close_connections_filter:
  "close_connections sid close_ok pool =
     filter (\<lambda>p. \<not> (startsWith (fst p) sid \<and> close_ok (conn_id (snd p)))) pool"
  by (induction sid close_ok pool rule: close_connections.induct) auto

lemma pool_ok_logout:
  assumes "pool_ok w"
  shows "pool_ok (snd (snd (logout req close_ok w)))"
  using assms
  by (auto simp: pool_ok_def logout_def Let_def close_connections_filter distinct_map_filter
      list_all_iff)

lemma connectionKey_inj_session: "connectionKey A u = connectionKey B u \<Longrightarrow> A = B"
  by (simp add: connectionKey_def)

text \<open>The composite key determines both components when the session ids contain no
  colon (the separator); with a colon inside an id two different pairs can meet in one key.\<close>

lemma connectionKey_inj:
  assumes "connectionKey A u = connectionKey B v" "CHR '':'' \<notin> set A" "CHR '':'' \<notin> set B"
  shows "A = B \<and> u = v"
  using assms
proof (induction A arbitrary: B)
  case Nil
  then show ?case by (cases B) (auto simp: connectionKey_def)
next
  case (Cons a A)
  then show ?case by (cases B) (auto simp: connectionKey_def)
qed

lemma connectionKey_colon_collision: "connectionKey ''a'' ''b:c'' = connectionKey ''a:b'' ''c''"
  by (simp add: connectionKey_def)

lemma same_length_not_startsWith:
  assumes "A \<noteq> B" "length A = length B"
  shows "\<not> startsWith (connectionKey B v) A"
  using assms by (auto simp: startsWith_def connectionKey_def)


lemma first_acquire:
  "getConnection ''sessA'' ''db'' True initial_world =
     (Inr \<lparr>conn_id = 0, conn_uri = ''db'', readyState = 1\<rparr>,
      initial_world\<lparr>created := 1,
        connectionPool := [(''sessA:db'', \<lparr>conn_id = 0, conn_uri = ''db'', readyState = 1\<rparr>)]\<rparr>)"
  by (simp add: getConnection_def createConnection_def connectionKey_def initial_world_def Let_def)

lemma second_acquire:
  "getConnection ''sessB'' ''db'' True (snd (getConnection ''sessA'' ''db'' True initial_world)) =
     (Inr \<lparr>conn_id = 1, conn_uri = ''db'', readyState = 1\<rparr>,
      initial_world\<lparr>created := 2,
        connectionPool := [(''sessA:db'', \<lparr>conn_id = 0, conn_uri = ''db'', readyState = 1\<rparr>),
                           (''sessB:db'', \<lparr>conn_id = 1, conn_uri = ''db'', readyState = 1\<rparr>)]\<rparr>)"
  by (simp add: getConnection_def createConnection_def connectionKey_def initial_world_def Let_def)

lemma pool_ok_initial: "pool_ok initial_world"
  by (simp add: pool_ok_def initial_world_def)

text \<open>
  Claim C4: while the cached entry of a (non-empty) session id and address is live
  (\<^verbatim>\<open>readyState\<close> 1), every \<^verbatim>\<open>getConnection\<close> for the pair returns that handle and leaves the
  world, and with it the creation counter, unchanged, whatever number of acquires
  follow one another and whatever a connection attempt would have done.
\<close>

theorem getConnection_reuses_live_entry:
  assumes "sessionId \<noteq> []" and "mongoUri \<noteq> []"
    and "map_of (connectionPool w) (connectionKey sessionId mongoUri) = Some conn"
    and "readyState conn = 1"
  shows "getConnection sessionId mongoUri ok w = (Inr conn, w) \<and>
     getConnection_seq sessionId mongoUri oks w = (replicate (length oks) (Inr conn), w) \<and>
     created (snd (getConnection_seq sessionId mongoUri oks w)) = created w"
  using assms by (simp add: getConnection_live getConnection_seq_live)

text \<open>One creation, then three more acquires: the counter stays at 1.\<close>

theorem getConnection_reuses_live_entry_witness:
  "getConnection_seq ''sessA'' ''db'' [True, False, True]
       (snd (getConnection ''sessA'' ''db'' True initial_world))
     = (replicate 3 (Inr \<lparr>conn_id = 0, conn_uri = ''db'', readyState = 1\<rparr>),
        snd (getConnection ''sessA'' ''db'' True initial_world)) \<and>
   created (snd (getConnection_seq ''sessA'' ''db'' [True, False, True]
       (snd (getConnection ''sessA'' ''db'' True initial_world)))) = 1"
proof -
  let ?c = "\<lparr>conn_id = 0, conn_uri = ''db'', readyState = 1\<rparr>"
  let ?w = "snd (getConnection ''sessA'' ''db'' True initial_world)"
  have cached: "map_of (connectionPool ?w) (connectionKey ''sessA'' ''db'') = Some ?c"
    by (simp add: first_acquire connectionKey_def)
  have one: "created ?w = 1" by (simp add: first_acquire)
  show ?thesis
    using getConnection_reuses_live_entry[of "''sessA''" "''db''" ?w ?c True "[True, False, True]", OF _ _ cached]
      one
    by (simp del: getConnection_seq.simps add: numeral_3_eq_3)
qed

text \<open>
  Claim C1. Session ids are the values of \<^verbatim>\<open>req.sessionID\<close>, which the session middleware
  issues with one fixed length (no \<^verbatim>\<open>genid\<close> is configured), so two ids have equal length.
  Two distinct ids acquiring the same address get two distinct pool entries: distinct
  keys, each cached under its own key, with distinct handles. The logout of session \<open>A\<close>
  removes no entry of session \<open>B\<close>, for this or any other address.
\<close>

theorem distinct_sessions_distinct_entries:
  assumes "A \<noteq> B" and "length A = length B" and "pool_ok w"
    and "getConnection A u okA w = (Inr cA, w1)"
    and "getConnection B u okB w1 = (Inr cB, w2)"
    and "sessionID reqA = A"
  shows "connectionKey A u \<noteq> connectionKey B u \<and>
     map_of (connectionPool w2) (connectionKey A u) = Some cA \<and>
     map_of (connectionPool w2) (connectionKey B u) = Some cB \<and>
     conn_id cA \<noteq> conn_id cB \<and>
     map_of (connectionPool (snd (snd (logout reqA close_ok w2)))) (connectionKey B u) = Some cB \<and>
     (\<forall>v. map_of (connectionPool (snd (snd (logout reqA close_ok w2)))) (connectionKey B v)
          = map_of (connectionPool w2) (connectionKey B v))"
proof -
  have keys: "connectionKey A u \<noteq> connectionKey B u"
    using assms(1) connectionKey_inj_session by blast
  have a1: "map_of (connectionPool w1) (connectionKey A u) = Some cA"
    using getConnection_Inr_cached[OF assms(4)] by simp
  have w2: "w2 = snd (getConnection B u okB w1)" using assms(5) by simp
  have a2: "map_of (connectionPool w2) (connectionKey A u) = Some cA"
    unfolding w2 using getConnection_other_keys[OF keys] a1 by simp
  have b2: "map_of (connectionPool w2) (connectionKey B u) = Some cB"
    using getConnection_Inr_cached[OF assms(5)] by simp
  have "pool_ok w1" using pool_ok_getConnection[OF assms(3), of A u okA] assms(4) by simp
  then have "pool_ok w2" unfolding w2 by (rule pool_ok_getConnection)
  then have ids: "conn_id cA \<noteq> conn_id cB"
    using a2 b2 keys by (rule pool_ok_distinct_handles)
  have lo: "map_of (connectionPool (snd (snd (logout reqA close_ok w2)))) (connectionKey B v)
          = map_of (connectionPool w2) (connectionKey B v)" for v
  proof -
    have "\<not> startsWith (connectionKey B v) A"
      using assms(1,2) by (rule same_length_not_startsWith)
    then show ?thesis using assms(6) by (simp add: logout_def Let_def close_connections_other)
  qed
  show ?thesis using keys a2 b2 ids lo by simp
qed

text \<open>Two sessions on one address, then the logout of the first.\<close>

theorem distinct_sessions_distinct_entries_witness:
  "connectionKey ''sessA'' ''db'' \<noteq> connectionKey ''sessB'' ''db'' \<and>
   map_of (connectionPool (snd (getConnection ''sessB'' ''db'' True
        (snd (getConnection ''sessA'' ''db'' True initial_world)))))
      (connectionKey ''sessA'' ''db'') = Some \<lparr>conn_id = 0, conn_uri = ''db'', readyState = 1\<rparr> \<and>
   map_of (connectionPool (snd (getConnection ''sessB'' ''db'' True
        (snd (getConnection ''sessA'' ''db'' True initial_world)))))
      (connectionKey ''sessB'' ''db'') = Some \<lparr>conn_id = 1, conn_uri = ''db'', readyState = 1\<rparr> \<and>
   map_of (connectionPool (snd (snd (logout (bare_request ''sessA'' (fresh_session 0)) (\<lambda>c. True)
        (snd (getConnection ''sessB'' ''db'' True
          (snd (getConnection ''sessA'' ''db'' True initial_world))))))))
      (connectionKey ''sessB'' ''db'') = Some \<lparr>conn_id = 1, conn_uri = ''db'', readyState = 1\<rparr>"
proof -
  let ?cA = "\<lparr>conn_id = 0, conn_uri = ''db'', readyState = 1\<rparr>"
  let ?cB = "\<lparr>conn_id = 1, conn_uri = ''db'', readyState = 1\<rparr>"
  let ?w1 = "snd (getConnection ''sessA'' ''db'' True initial_world)"
  let ?w2 = "snd (getConnection ''sessB'' ''db'' True ?w1)"
  have ne: "''sessA'' \<noteq> ''sessB''" by simp
  have len: "length ''sessA'' = length ''sessB''" by simp
  have h1: "getConnection ''sessA'' ''db'' True initial_world = (Inr ?cA, ?w1)"
    by (simp add: first_acquire)
  have h2: "getConnection ''sessB'' ''db'' True ?w1 = (Inr ?cB, ?w2)"
    by (simp add: second_acquire)
  have h3: "sessionID (bare_request ''sessA'' (fresh_session 0)) = ''sessA''"
    by (simp add: bare_request_def)
  note th = distinct_sessions_distinct_entries[OF ne len pool_ok_initial h1 h2 h3, of "\<lambda>c. True"]
  then show ?thesis by blast
qed

text \<open>
  The logout loop tests \<^verbatim>\<open>key.startsWith(sessionId)\<close> on the whole key, without the colon.
  Between ids of different length, which the session middleware does not issue, it would
  also match the other session's key.
\<close>

lemma logout_prefix_of_longer_id:
  "map_of (connectionPool (snd (snd (logout (bare_request ''ab'' (fresh_session 0)) (\<lambda>c. True)
        (snd (getConnection ''abc'' ''db'' True
          (snd (getConnection ''ab'' ''db'' True initial_world))))))))
      (connectionKey ''abc'' ''db'') = None"
  by (simp add: getConnection_def createConnection_def connectionKey_def initial_world_def Let_def
      logout_def bare_request_def startsWith_def)

section \<open>Guest sessions and the tenant-write routes\<close>

lemma guarded_Next [simp]: "guarded Next handler w = handler w"
  by (simp add: guarded_def)

lemma guarded_Respond [simp]: "guarded (Respond r) handler w = (r, w)"
  by (simp add: guarded_def)

lemma requireAuth_guest: "isGuest s = Some True \<Longrightarrow> requireAuth s = Next"
  by (simp add: requireAuth_def)

lemma authenticate_cases:
  "authenticate req = Next \<or> authenticate req = Respond (Json 403 ''Forbidden: Invalid API Key'')"
  by (simp add: authenticate_def Let_def)

text \<open>
  Claim C3, as the code has it. For a guest session none of the four tenant-write routes
  changes the world (pool, guest storage, pipeline flag, backing stores). Add server,
  remove server and clear logs always answer 403. Deploy answers 403 when the access key
  is wrong or a version is supplied; with the right key and no version its handler
  answers 400, because the version check stands in front of the guest check.
\<close>

theorem guest_writes_rejected:
  assumes "isGuest (session req) = Some True"
  shows "route_add_server req e w =
       (Json 403 (if authenticate req = Next then ''Cannot add servers in guest mode''
                  else ''Forbidden: Invalid API Key''), w) \<and>
     route_delete_server req e w = (Json 403 ''Cannot delete servers in guest mode'', w) \<and>
     route_logs_delete req e w =
       (Json 403 (if authenticate req = Next then ''Cannot delete logs in guest mode''
                  else ''Forbidden: Invalid API Key''), w) \<and>
     route_deploy req e w =
       (if authenticate req = Next
        then (if falsy (body_version req) then Json 400 ''Version is required''
              else Json 403 ''Cannot deploy in guest mode'')
        else Json 403 ''Forbidden: Invalid API Key'', w)"
  using assms authenticate_cases[of req]
  by (auto simp: route_add_server_def route_delete_server_def route_logs_delete_def
      route_deploy_def requireAuth_guest add_server_def delete_server_def logs_delete_def deploy_def)

text \<open>A guest session with the guest access key, on the empty world.\<close>

theorem guest_writes_rejected_witness:
  "route_add_server (guest_request ''sessG'' 0) calm initial_world =
       (Json 403 ''Cannot add servers in guest mode'', initial_world) \<and>
   route_delete_server (guest_request ''sessG'' 0) calm initial_world =
       (Json 403 ''Cannot delete servers in guest mode'', initial_world) \<and>
   route_logs_delete (guest_request ''sessG'' 0) calm initial_world =
       (Json 403 ''Cannot delete logs in guest mode'', initial_world) \<and>
   route_deploy ((guest_request ''sessG'' 0)\<lparr>body_version := Some ''v2''\<rparr>) calm initial_world =
       (Json 403 ''Cannot deploy in guest mode'', initial_world)"
proof -
  have g: "isGuest (session (guest_request ''sessG'' 0)) = Some True"
    "isGuest (session ((guest_request ''sessG'' 0)\<lparr>body_version := Some ''v2''\<rparr>)) = Some True"
    by (simp_all add: guest_request_def bare_request_def fresh_session_def)
  have a: "authenticate (guest_request ''sessG'' 0) = Next"
    "authenticate ((guest_request ''sessG'' 0)\<lparr>body_version := Some ''v2''\<rparr>) = Next"
    by (simp_all add: authenticate_def guest_request_def bare_request_def fresh_session_def GUEST_CONFIG_def)
  have v: "\<not> falsy (body_version ((guest_request ''sessG'' 0)\<lparr>body_version := Some ''v2''\<rparr>))"
    by (simp add: falsy_def)
  show ?thesis
    using guest_writes_rejected[OF g(1), of calm initial_world]
      guest_writes_rejected[OF g(2), of calm initial_world] a v
    by simp
qed

text \<open>
  C3 as stated fails for deploy: a guest request with the right key and no version is
  answered 400, not 403.
\<close>

theorem guest_deploy_without_version_counterexample:
  "isGuest (session (guest_request ''sessG'' 0)) = Some True \<and>
   route_deploy (guest_request ''sessG'' 0) calm initial_world =
     (Json 400 ''Version is required'', initial_world)"
  by (simp add: route_deploy_def requireAuth_def authenticate_def deploy_def guest_request_def
      bare_request_def fresh_session_def GUEST_CONFIG_def truthy_def falsy_def)

section \<open>Activation by upload\<close>

text \<open>
  Claim C2 at a concrete upload: both required fields are present and the connection
  attempt fails. The handler answers with the \<^verbatim>\<open>db_connection_failed\<close> redirect, but it
  had already written \<^verbatim>\<open>config\<close> and \<^verbatim>\<open>isGuest = false\<close> into the session, so the session
  that \<^verbatim>\<open>requireAuth\<close> rejected before the upload is accepted after it.
\<close>

theorem upload_env_commits_before_connection_test:
  "requireAuth (session (upload_request ''sessA'' 0)) = Respond (Redirect ''/?error=upload_required'') \<and>
   fst (upload_env sample_parse (upload_request ''sessA'' 0) (calm\<lparr>connect_ok := False\<rparr>) initial_world)
     = Redirect ''/?error=db_connection_failed'' \<and>
   isGuest (fst (snd (upload_env sample_parse (upload_request ''sessA'' 0)
       (calm\<lparr>connect_ok := False\<rparr>) initial_world))) = Some False \<and>
   config (fst (snd (upload_env sample_parse (upload_request ''sessA'' 0)
       (calm\<lparr>connect_ok := False\<rparr>) initial_world)))
     = Some \<lparr>MONGO_URI = Some ''mongodb://db.example/ops'', API_KEY = ''k1'',
             RENDER_API_KEY = [], PORT = PortNum 3000\<rparr> \<and>
   requireAuth (fst (snd (upload_env sample_parse (upload_request ''sessA'' 0)
       (calm\<lparr>connect_ok := False\<rparr>) initial_world))) = Next"
  by (simp add: upload_env_def parseEnvContent_def sample_parse_def upload_request_def
      bare_request_def fresh_session_def calm_def truthy_def falsy_def or_empty_def port_or_default_def
      getConnection_def createConnection_def connectionKey_def initial_world_def Let_def
      requireAuth_def)

text \<open>
  Claim C5: when the parsed upload has no \<^verbatim>\<open>MONGO_URI\<close> or no \<^verbatim>\<open>API_KEY\<close>, the handler
  answers with the \<^verbatim>\<open>invalid_env\<close> redirect and leaves the session record and the world as
  they were: no config is stored, and a session that \<^verbatim>\<open>requireAuth\<close> rejected before the
  upload is rejected after it.
\<close>

theorem upload_env_missing_required_field:
  assumes "req_file req = Some buffer"
    and "dotenv_parse buffer = Inr cfg"
    and "cfg ''MONGO_URI'' = None \<or> cfg ''API_KEY'' = None"
  shows "upload_env dotenv_parse req e w = (Redirect ''/?error=invalid_env'', session req, w) \<and>
     config (fst (snd (upload_env dotenv_parse req e w))) = config (session req) \<and>
     (requireAuth (session req) \<noteq> Next \<longrightarrow>
        requireAuth (fst (snd (upload_env dotenv_parse req e w)))
          = Respond (Redirect ''/?error=upload_required''))"
  using assms
  by (auto simp: upload_env_def parseEnvContent_def truthy_def falsy_def requireAuth_def split: if_splits)

text \<open>A new session uploading a file without \<^verbatim>\<open>API_KEY\<close>.\<close>

theorem upload_env_missing_required_field_witness:
  "upload_env parse_without_key (upload_request ''sessA'' 0) calm initial_world
     = (Redirect ''/?error=invalid_env'', fresh_session 0, initial_world) \<and>
   config (fst (snd (upload_env parse_without_key (upload_request ''sessA'' 0) calm initial_world)))
     = None \<and>
   requireAuth (fst (snd (upload_env parse_without_key (upload_request ''sessA'' 0) calm initial_world)))
     = Respond (Redirect ''/?error=upload_required'')"
proof -
  have f: "req_file (upload_request ''sessA'' 0) = Some ''env''"
    by (simp add: upload_request_def bare_request_def)
  have p: "parse_without_key ''env'' = Inr (map_of [(''MONGO_URI'', ''mongodb://db.example/ops'')])"
    by (simp add: parse_without_key_def)
  have m: "map_of [(''MONGO_URI'', ''mongodb://db.example/ops'')] ''MONGO_URI'' = None \<or>
           map_of [(''MONGO_URI'', ''mongodb://db.example/ops'')] ''API_KEY'' = None"
    by simp
  have s: "session (upload_request ''sessA'' 0) = fresh_session 0"
    by (simp add: upload_request_def bare_request_def)
  have r: "requireAuth (fresh_session 0) \<noteq> Next"
    by (simp add: requireAuth_def fresh_session_def)
  have c: "config (fresh_session 0) = None" by (simp add: fresh_session_def)
  show ?thesis
    using upload_env_missing_required_field[of "upload_request ''sessA'' 0" "''env''"
        parse_without_key "map_of [(''MONGO_URI'', ''mongodb://db.example/ops'')]" calm initial_world,
        OF f p m] s r c
    by (simp add: requireAuth_def fresh_session_def)
qed

section \<open>The webhook endpoint\<close>

text \<open>
  Claim C9: \<^verbatim>\<open>POST /webhooks/render\<close> answers 200 (500 when the work inside its \<^verbatim>\<open>try\<close>
  block throws) and returns the world exactly as it found it: nothing is written to a
  backing store, to the guest storage or to any other in-memory structure.
\<close>

theorem webhooks_render_only_acknowledges:
  "snd (webhooks_render payload logging_ok w) = w \<and>
   fst (webhooks_render payload logging_ok w) =
     (if logging_ok then Json 200 ''Webhook received''
      else Json 500 ''Webhook processing failed'') \<and>
   deployments (stores (snd (webhooks_render payload logging_ok w)) uri) = deployments (stores w uri) \<and>
   guestStorage (snd (webhooks_render payload logging_ok w)) = guestStorage w"
  by (simp add: webhooks_render_def)

section \<open>Idle sessions\<close>

lemma requireAuth_fresh:
  "requireAuth (fresh_session t) = Respond (Redirect ''/?error=upload_required'')"
  by (simp add: requireAuth_def fresh_session_def)

lemma session_middleware_expired:
  assumes "cookie_expires s \<le> t"
  shows "session (session_middleware new_id t (Some s) req) = fresh_session t"
  using assms by (simp add: session_middleware_def)

text \<open>
  Claim C6, as the code has it. A session whose last activity lies more than the 30
  minutes of the cookie's \<^verbatim>\<open>maxAge\<close> in the past is treated as unauthenticated although its
  record still exists: the session middleware hands the routes a new empty record, and
  \<^verbatim>\<open>requireAuth\<close> answers with the redirect to the upload page, in front of whatever
  handler. Nothing else happens: the world, and with it the connection pool, the guest
  storage and the backing stores, is returned as it was. No cleanup is triggered.
\<close>

theorem idle_session_rejected_without_cleanup:
  assumes "cookie_expires s = last_active + sessionConfig_cookie_maxAge"
    and "last_active + 30 * 60 * 1000 < now e"
  shows "requireAuth (session (session_middleware new_id (now e) (Some s) req))
       = Respond (Redirect ''/?error=upload_required'') \<and>
     guarded (requireAuth (session (session_middleware new_id (now e) (Some s) req))) handler w
       = (Redirect ''/?error=upload_required'', w) \<and>
     route_deploy (session_middleware new_id (now e) (Some s) req) e w
       = (Redirect ''/?error=upload_required'', w) \<and>
     route_add_server (session_middleware new_id (now e) (Some s) req) e w
       = (Redirect ''/?error=upload_required'', w) \<and>
     route_delete_server (session_middleware new_id (now e) (Some s) req) e w
       = (Redirect ''/?error=upload_required'', w) \<and>
     route_logs_delete (session_middleware new_id (now e) (Some s) req) e w
       = (Redirect ''/?error=upload_required'', w)"
proof -
  have "cookie_expires s \<le> now e"
    using assms by (simp add: sessionConfig_cookie_maxAge_def)
  then have "session (session_middleware new_id (now e) (Some s) req) = fresh_session (now e)"
    by (rule session_middleware_expired)
  then show ?thesis
    by (simp add: requireAuth_fresh route_deploy_def route_add_server_def
        route_delete_server_def route_logs_delete_def)
qed

text \<open>A guest session activated at time 0 and next seen at minute 31.\<close>

theorem idle_session_rejected_without_cleanup_witness:
  "requireAuth (session (session_middleware ''sessN'' (31 * 60 * 1000)
       (Some (fst (snd (guest_mode (bare_request ''sessG'' (fresh_session 0)) calm initial_world))))
       (bare_request ''sessG'' (fresh_session 0))))
     = Respond (Redirect ''/?error=upload_required'') \<and>
   route_delete_server
       (session_middleware ''sessN'' (31 * 60 * 1000)
          (Some (fst (snd (guest_mode (bare_request ''sessG'' (fresh_session 0)) calm initial_world))))
          (bare_request ''sessG'' (fresh_session 0)))
       (calm\<lparr>now := 31 * 60 * 1000\<rparr>)
       (snd (snd (guest_mode (bare_request ''sessG'' (fresh_session 0)) calm initial_world)))
     = (Redirect ''/?error=upload_required'',
        snd (snd (guest_mode (bare_request ''sessG'' (fresh_session 0)) calm initial_world)))"
proof -
  let ?s = "fst (snd (guest_mode (bare_request ''sessG'' (fresh_session 0)) calm initial_world))"
  let ?e = "calm\<lparr>now := 31 * 60 * 1000\<rparr>"
  have h1: "cookie_expires ?s = 0 + sessionConfig_cookie_maxAge"
    by (simp add: guest_mode_def getGuestData_def bare_request_def fresh_session_def Let_def
        split: option.splits)
  have h2: "(0::int) + 30 * 60 * 1000 < now ?e" by simp
  have n: "now ?e = 31 * 60 * 1000" by simp
  show ?thesis
    using idle_session_rejected_without_cleanup[OF h1 h2, of "''sessN''"
        "bare_request ''sessG'' (fresh_session 0)" _
        "snd (snd (guest_mode (bare_request ''sessG'' (fresh_session 0)) calm initial_world))"]
    unfolding n by blast
qed

text \<open>
  C6 as stated fails in its second half. A guest session and a credentialed session,
  both activated at time 0, are next seen at minute 31: each request is redirected to
  the upload page and the world is unchanged, so the guest dataset and the pooled
  connection that a logout of these sessions removes are still there.
\<close>

theorem idle_session_not_cleaned_up:
  "snd (route_delete_server
       (session_middleware ''sessN'' (31 * 60 * 1000)
          (Some (fst (snd (guest_mode (bare_request ''sessG'' (fresh_session 0)) calm initial_world))))
          (bare_request ''sessG'' (fresh_session 0)))
       (calm\<lparr>now := 31 * 60 * 1000\<rparr>)
       (snd (snd (guest_mode (bare_request ''sessG'' (fresh_session 0)) calm initial_world))))
     = snd (snd (guest_mode (bare_request ''sessG'' (fresh_session 0)) calm initial_world)) \<and>
   map_of (guestStorage (snd (snd (guest_mode (bare_request ''sessG'' (fresh_session 0)) calm initial_world))))
       ''sessG'' = Some (seed 0) \<and>
   map_of (guestStorage (snd (snd (logout (bare_request ''sessG'' (fresh_session 0)) (\<lambda>c. True)
       (snd (snd (guest_mode (bare_request ''sessG'' (fresh_session 0)) calm initial_world)))))))
       ''sessG'' = None \<and>
   snd (route_delete_server
       (session_middleware ''sessN'' (31 * 60 * 1000)
          (Some (fst (snd (upload_env sample_parse (upload_request ''sessA'' 0) calm initial_world))))
          (bare_request ''sessA'' (fresh_session 0)))
       (calm\<lparr>now := 31 * 60 * 1000\<rparr>)
       (snd (snd (upload_env sample_parse (upload_request ''sessA'' 0) calm initial_world))))
     = snd (snd (upload_env sample_parse (upload_request ''sessA'' 0) calm initial_world)) \<and>
   map_of (connectionPool (snd (snd (upload_env sample_parse (upload_request ''sessA'' 0) calm initial_world))))
       (connectionKey ''sessA'' ''mongodb://db.example/ops'')
     = Some \<lparr>conn_id = 0, conn_uri = ''mongodb://db.example/ops'', readyState = 1\<rparr> \<and>
   map_of (connectionPool (snd (snd (logout (bare_request ''sessA'' (fresh_session 0)) (\<lambda>c. True)
       (snd (snd (upload_env sample_parse (upload_request ''sessA'' 0) calm initial_world)))))))
       (connectionKey ''sessA'' ''mongodb://db.example/ops'') = None"
  by (simp add: guest_mode_def getGuestData_def bare_request_def fresh_session_def calm_def
      initial_world_def requireAuth_def route_delete_server_def logout_def
      sessionConfig_cookie_maxAge_def GUEST_CONFIG_def Let_def session_middleware_def
      upload_env_def parseEnvContent_def sample_parse_def upload_request_def falsy_def
      or_empty_def getConnection_def createConnection_def connectionKey_def startsWith_def)

section \<open>The health check\<close>

lemma check_servers_error:
  "fst (check_servers h svs statuses) =
     (if list_all (\<lambda>sv. server_save_ok h (server_name sv)) svs then None
      else Some (Error ''save failed''))"
  by (induction svs arbitrary: statuses) (simp_all add: Let_def case_prod_beta)

lemma check_servers_statuses:
  "fst (snd (check_servers h svs statuses)) = classify h (probed h svs) statuses"
  by (induction svs arbitrary: statuses) (simp_all add: classify_def Let_def case_prod_beta)

lemma probed_all:
  "list_all (\<lambda>sv. server_save_ok h (server_name sv)) svs \<Longrightarrow> probed h svs = svs"
  by (induction svs) auto

lemma map_of_classify:
  "map_of (classify h svs statuses) n =
     (case map_of (map (\<lambda>sv. (server_name sv, probe_entry (axios_get h (server_url sv)))) (rev svs)) n of
        Some e \<Rightarrow> Some e | None \<Rightarrow> map_of statuses n)"
  by (induction svs arbitrary: statuses)
     (auto simp: classify_def AList.update_conv' map_add_def split: option.splits)

lemma classify_covers:
  assumes "sv \<in> set svs"
  shows "\<exists>entry. map_of (classify h svs statuses) (server_name sv) = Some entry"
proof -
  have "server_name sv \<in> fst ` set (map (\<lambda>sv. (server_name sv, probe_entry (axios_get h (server_url sv)))) (rev svs))"
    using assms by force
  then obtain e where "map_of (map (\<lambda>sv. (server_name sv, probe_entry (axios_get h (server_url sv)))) (rev svs)) (server_name sv) = Some e"
    by (metis map_of_eq_None_iff not_Some_eq)
  then show ?thesis by (simp add: map_of_classify)
qed

lemma classify_distinct:
  assumes "sv \<in> set svs" "distinct (map server_name svs)"
  shows "map_of (classify h svs statuses) (server_name sv) = Some (probe_entry (axios_get h (server_url sv)))"
proof -
  let ?al = "map (\<lambda>sv. (server_name sv, probe_entry (axios_get h (server_url sv)))) (rev svs)"
  have "map fst ?al = rev (map server_name svs)" by (simp add: rev_map comp_def)
  then have "distinct (map fst ?al)" using assms(2) by simp
  moreover have "(server_name sv, probe_entry (axios_get h (server_url sv))) \<in> set ?al"
    using assms(1) by force
  ultimately have "map_of ?al (server_name sv) = Some (probe_entry (axios_get h (server_url sv)))"
    by (rule map_of_is_SomeI)
  then show ?thesis by (simp add: map_of_classify)
qed

text \<open>
  Claim C8: \<^verbatim>\<open>checkServerHealth\<close> always returns a statuses mapping, never an exception.
  Without a connection, or when \<^verbatim>\<open>Server.find()\<close> fails, the mapping is empty; otherwise it
  holds the classification of every server the loop reached. Which servers are reached
  depends on the saves only, never on a probe: a rejected probe is recorded as
  \<^verbatim>\<open>Down\<close> with its reason and the loop goes on, so when every save succeeds every
  registered server is classified.
\<close>

theorem checkServerHealth_never_throws:
  "fst (checkServerHealth h sessionId guest connection w) =
     Inr (if guest then guest_statuses (servers (fst (getGuestData sessionId (check_time h) w)))
          else case connection of
                 None \<Rightarrow> []
               | Some conn \<Rightarrow>
                   if find_ok h then classify h (probed h (servers (stores w (conn_uri conn)))) []
                   else []) \<and>
   (list_all (\<lambda>sv. server_save_ok h (server_name sv)) svs \<longrightarrow> probed h svs = svs) \<and>
   (sv \<in> set svs \<longrightarrow> (\<exists>entry. map_of (classify h svs []) (server_name sv) = Some entry)) \<and>
   (sv \<in> set svs \<and> distinct (map server_name svs) \<and> axios_get h (server_url sv) = Rejected error \<longrightarrow>
      map_of (classify h svs []) (server_name sv)
        = Some \<lparr>status = ''Down'', reason = failure_reason error\<rparr>)"
proof -
  have 1: "fst (checkServerHealth h sessionId guest connection w) =
     Inr (if guest then guest_statuses (servers (fst (getGuestData sessionId (check_time h) w)))
          else case connection of
                 None \<Rightarrow> []
               | Some conn \<Rightarrow>
                   if find_ok h then classify h (probed h (servers (stores w (conn_uri conn)))) []
                   else [])"
  proof (cases guest)
    case True
    then show ?thesis
      by (simp add: checkServerHealth_def checkServerHealth_try_def split: prod.splits)
  next
    case False
    show ?thesis
    proof (cases connection)
      case None
      with False show ?thesis by (simp add: checkServerHealth_def checkServerHealth_try_def)
    next
      case (Some conn)
      show ?thesis
        using False Some check_servers_statuses[of h "servers (stores w (conn_uri conn))" "[]"]
        by (auto simp: checkServerHealth_def checkServerHealth_try_def Let_def
            split: prod.splits option.splits)
    qed
  qed
  have 4: "map_of (classify h svs []) (server_name sv) = Some \<lparr>status = ''Down'', reason = failure_reason error\<rparr>"
    if "sv \<in> set svs" "distinct (map server_name svs)" "axios_get h (server_url sv) = Rejected error"
    using classify_distinct[OF that(1,2), of h "[]"] that(3) by (simp add: probe_entry_def)
  show ?thesis using 1 probed_all classify_covers 4 by blast
qed

text \<open>Two servers, the probe of the first refused: both are classified.\<close>

theorem checkServerHealth_never_throws_witness:
  "fst (checkServerHealth api_down ''sessA'' False
         (Some \<lparr>conn_id = 0, conn_uri = ''mongodb://db.example/ops'', readyState = 1\<rparr>)
         two_server_world)
     = Inr [(''api'', \<lparr>status = ''Down'', reason = ''ECONNREFUSED''\<rparr>),
            (''web'', \<lparr>status = ''Up'', reason = ''OK 200''\<rparr>)] \<and>
   probed api_down two_servers = two_servers \<and>
   map_of (classify api_down two_servers []) ''api''
     = Some \<lparr>status = ''Down'', reason = ''ECONNREFUSED''\<rparr>"
proof -
  let ?err = "\<lparr>err_response = None, err_code = Some ''ECONNREFUSED'',
               err_message = Some ''connect ECONNREFUSED''\<rparr>"
  let ?api = "\<lparr>server_name = ''api'', server_url = ''http://api.example'', server_status = ''Unknown''\<rparr>"
  have saves: "list_all (\<lambda>sv. server_save_ok api_down (server_name sv)) two_servers"
    by (simp add: api_down_def two_servers_def)
  have mem: "?api \<in> set two_servers" by (simp add: two_servers_def)
  have dist: "distinct (map server_name two_servers)" by (simp add: two_servers_def)
  have rej: "axios_get api_down (server_url ?api) = Rejected ?err" by (simp add: api_down_def)
  have store: "servers (stores two_server_world ''mongodb://db.example/ops'') = two_servers"
    by (simp add: two_server_world_def update_store_def)
  have reason: "failure_reason ?err = ''ECONNREFUSED''"
    by (simp add: failure_reason_def truthy_def falsy_def or_empty_def)
  have cl: "classify api_down two_servers [] =
      [(''api'', \<lparr>status = ''Down'', reason = ''ECONNREFUSED''\<rparr>),
       (''web'', \<lparr>status = ''Up'', reason = ''OK 200''\<rparr>)]"
    by (simp add: classify_def two_servers_def api_down_def probe_entry_def reason)
  show ?thesis
    using checkServerHealth_never_throws[of api_down "''sessA''" False
        "Some \<lparr>conn_id = 0, conn_uri = ''mongodb://db.example/ops'', readyState = 1\<rparr>"
        two_server_world two_servers ?api ?err]
      saves mem dist rej store reason cl
    by (simp add: api_down_def)
qed

section \<open>The delete route and the access key\<close>

lemma delete_server_without_header:
  "delete_server (req\<lparr>x_api_key := k\<rparr>) e w = delete_server req e w"
  by (simp add: delete_server_def split: option.splits prod.splits sum.splits)

text \<open>
  Claim C10: for a non-guest session with a stored config, \<^verbatim>\<open>DELETE /servers/:name\<close> runs
  its handler after \<^verbatim>\<open>requireAuth\<close> alone; the \<^verbatim>\<open>x-api-key\<close> header has no influence on the
  outcome, and the named server is removed whenever the connection and the store
  operation succeed. With a key other than the session's, \<^verbatim>\<open>POST /servers\<close> and
  \<^verbatim>\<open>POST /logs_delete\<close> are stopped by \<^verbatim>\<open>authenticate\<close> with 403.
\<close>

theorem delete_server_skips_api_key:
  assumes "isGuest (session req) = Some False" and "config (session req) = Some cfg"
  shows "route_delete_server (req\<lparr>x_api_key := k\<rparr>) e w = delete_server req e w \<and>
     (x_api_key req \<noteq> Some (API_KEY cfg) \<longrightarrow>
        route_add_server req e w = (Json 403 ''Forbidden: Invalid API Key'', w) \<and>
        route_logs_delete req e w = (Json 403 ''Forbidden: Invalid API Key'', w)) \<and>
     (getConnection (sessionID req) (or_empty (MONGO_URI cfg)) (connect_ok e) w = (Inr conn, w1) \<and>
      store_ok e \<and>
      find (\<lambda>sv. server_name sv = params_name req) (servers (stores w1 (conn_uri conn))) = Some sv \<longrightarrow>
        route_delete_server (req\<lparr>x_api_key := k\<rparr>) e w =
          (Json 200 ''Server removed'',
           update_store (conn_uri conn) (\<lambda>db. db\<lparr>servers := remove1 sv (servers db)\<rparr>) w1))"
proof -
  have "route_delete_server (req\<lparr>x_api_key := k\<rparr>) e w = delete_server req e w"
    using assms by (simp add: route_delete_server_def requireAuth_def delete_server_without_header)
  moreover have "delete_server req e w =
      (Json 200 ''Server removed'',
       update_store (conn_uri conn) (\<lambda>db. db\<lparr>servers := remove1 sv (servers db)\<rparr>) w1)"
    if "getConnection (sessionID req) (or_empty (MONGO_URI cfg)) (connect_ok e) w = (Inr conn, w1)"
      "store_ok e"
      "find (\<lambda>sv. server_name sv = params_name req) (servers (stores w1 (conn_uri conn))) = Some sv"
    using assms that by (simp add: delete_server_def)
  moreover have "route_add_server req e w = (Json 403 ''Forbidden: Invalid API Key'', w)"
    "route_logs_delete req e w = (Json 403 ''Forbidden: Invalid API Key'', w)"
    if "x_api_key req \<noteq> Some (API_KEY cfg)"
    using assms that
    by (simp_all add: route_add_server_def route_logs_delete_def requireAuth_def authenticate_def)
  ultimately show ?thesis by simp
qed

text \<open>A tenant presenting a wrong key: the delete goes through, the two other routes
  answer 403.\<close>

theorem delete_server_skips_api_key_witness:
  "route_delete_server
       ((bare_request ''sessA'' tenant_session)\<lparr>params_name := ''web'', x_api_key := Some ''wrong''\<rparr>)
       calm two_server_world
     = (Json 200 ''Server removed'',
        update_store ''mongodb://db.example/ops''
          (\<lambda>db. db\<lparr>servers := remove1
              \<lparr>server_name = ''web'', server_url = ''http://web.example'', server_status = ''Unknown''\<rparr>
              (servers db)\<rparr>)
          (snd (getConnection ''sessA'' ''mongodb://db.example/ops'' True two_server_world))) \<and>
   route_add_server
       ((bare_request ''sessA'' tenant_session)\<lparr>params_name := ''web'', x_api_key := Some ''wrong''\<rparr>)
       calm two_server_world
     = (Json 403 ''Forbidden: Invalid API Key'', two_server_world) \<and>
   route_logs_delete
       ((bare_request ''sessA'' tenant_session)\<lparr>params_name := ''web'', x_api_key := Some ''wrong''\<rparr>)
       calm two_server_world
     = (Json 403 ''Forbidden: Invalid API Key'', two_server_world)"
proof -
  let ?req = "(bare_request ''sessA'' tenant_session)\<lparr>params_name := ''web'', x_api_key := Some ''wrong''\<rparr>"
  let ?cfg = "\<lparr>MONGO_URI = Some ''mongodb://db.example/ops'', API_KEY = ''k1'',
               RENDER_API_KEY = [], PORT = PortNum 3000\<rparr>"
  let ?conn = "\<lparr>conn_id = 0, conn_uri = ''mongodb://db.example/ops'', readyState = 1\<rparr>"
  let ?w1 = "snd (getConnection ''sessA'' ''mongodb://db.example/ops'' True two_server_world)"
  let ?web = "\<lparr>server_name = ''web'', server_url = ''http://web.example'', server_status = ''Unknown''\<rparr>"
  have g: "isGuest (session ?req) = Some False"
    by (simp add: bare_request_def tenant_session_def)
  have c: "config (session ?req) = Some ?cfg"
    by (simp add: bare_request_def tenant_session_def)
  have k: "x_api_key ?req \<noteq> Some (API_KEY ?cfg)" by simp
  have conn: "getConnection (sessionID ?req) (or_empty (MONGO_URI ?cfg)) (connect_ok calm) two_server_world
      = (Inr ?conn, ?w1)"
    by (simp add: bare_request_def or_empty_def calm_def getConnection_def createConnection_def
        connectionKey_def two_server_world_def update_store_def initial_world_def Let_def)
  have st: "stores ?w1 = stores two_server_world"
    by (simp add: getConnection_def createConnection_def connectionKey_def two_server_world_def
        update_store_def initial_world_def Let_def)
  have f: "find (\<lambda>sv. server_name sv = params_name ?req) (servers (stores ?w1 (conn_uri ?conn))) = Some ?web"
    unfolding st by (simp add: two_server_world_def update_store_def two_servers_def bare_request_def)
  have ok: "store_ok calm" by (simp add: calm_def)
  note th = delete_server_skips_api_key[OF g c, of "Some ''wrong''" calm two_server_world ?conn ?w1 ?web]
  from th k have rejected:
    "route_add_server ?req calm two_server_world = (Json 403 ''Forbidden: Invalid API Key'', two_server_world) \<and>
     route_logs_delete ?req calm two_server_world = (Json 403 ''Forbidden: Invalid API Key'', two_server_world)"
    by blast
  from th conn ok f have removed:
    "route_delete_server (?req\<lparr>x_api_key := Some ''wrong''\<rparr>) calm two_server_world =
       (Json 200 ''Server removed'',
        update_store (conn_uri ?conn) (\<lambda>db. db\<lparr>servers := remove1 ?web (servers db)\<rparr>) ?w1)"
    by blast
  from removed have "route_delete_server ?req calm two_server_world =
       (Json 200 ''Server removed'',
        update_store ''mongodb://db.example/ops'' (\<lambda>db. db\<lparr>servers := remove1 ?web (servers db)\<rparr>) ?w1)"
    by simp
  with rejected show ?thesis by blast
qed

end
